theory Spec2Isabelle
  imports Main
begin

section \<open>go-npm: the install and uninstall flow of \<^verbatim>\<open>src/index.js\<close>\<close>

text \<open>
  The program is one Node script. Its pure parts (the two mapping tables, the validation
  of the manifest, the normalisation of the options, the selection of a release and of an
  asset) are HOL functions. Everything it does to the outside (lines written to the
  console, HTTP requests, files, the exit of the process) is explicit: the functions pass
  a record of the process state along, and the asynchronous callbacks of the source are
  continuations.

  Strings are \<^typ>\<open>string\<close>; a character stands for one UTF-16 code unit below 256.
\<close>

subsection \<open>Built-ins of the language that the script calls\<close>

text \<open>
  \<^verbatim>\<open>String.prototype.trim\<close> removes white space and line terminators from both ends.
  Below 256 these are tab, line feed, vertical tab, form feed, carriage return, space and
  the no-break space.
\<close>

definition is_white :: "char \<Rightarrow> bool" where
  "is_white c = (c \<in> set [CHR 0x09, CHR 0x0A, CHR 0x0B, CHR 0x0C, CHR 0x0D, CHR 0x20, CHR 0xA0])"

definition trim :: "string \<Rightarrow> string" where
  "trim s = rev (dropWhile is_white (rev (dropWhile is_white s)))"

text \<open>
  \<open>strip_prefix p s\<close> is the rest of \<open>s\<close> behind \<open>p\<close> when \<open>s\<close> starts with \<open>p\<close>: the
  match of a regular expression that is a literal, at the current position.
\<close>

fun strip_prefix :: "string \<Rightarrow> string \<Rightarrow> string option" where
  "strip_prefix [] s = Some s"
| "strip_prefix (p # ps) [] = None"
| "strip_prefix (p # ps) (c # cs) = (if p = c then strip_prefix ps cs else None)"

text \<open>
  \<^verbatim>\<open>GetSubstitution\<close> of ECMAScript for a pattern without capture groups: in the
  replacement text \<^verbatim>\<open>$$\<close> stands for a dollar sign, \<^verbatim>\<open>$&\<close> for the matched text,
  \<^verbatim>\<open>$`\<close> for the subject up to the match and \<^verbatim>\<open>$'\<close> for the subject behind it;
  every other character stands for itself.
\<close>

fun getSubstitution :: "string \<Rightarrow> string \<Rightarrow> string \<Rightarrow> string \<Rightarrow> string" where
  "getSubstitution matched pre post [] = []"
| "getSubstitution matched pre post [c] = [c]"
| "getSubstitution matched pre post (c # d # r) =
     (if c = CHR 0x24 \<and> d = CHR 0x24 then CHR 0x24 # getSubstitution matched pre post r
      else if c = CHR 0x24 \<and> d = CHR 0x26 then matched @ getSubstitution matched pre post r
      else if c = CHR 0x24 \<and> d = CHR 0x60 then pre @ getSubstitution matched pre post r
      else if c = CHR 0x24 \<and> d = CHR 0x27 then post @ getSubstitution matched pre post r
      else c # getSubstitution matched pre post (d # r))"

text \<open>
  \<^verbatim>\<open>s.replace(/pat/g, repl)\<close> for a literal, non-empty \<open>pat\<close>: the subject is scanned from
  the left, each match is replaced by its substitution and the scan goes on behind the
  match. \<open>pre\<close> is the part of the subject already scanned.
\<close>

function replace_from :: "string \<Rightarrow> string \<Rightarrow> string \<Rightarrow> string \<Rightarrow> string" where
  "replace_from pat repl pre [] = []"
| "replace_from pat repl pre (c # cs) =
     (if pat = [] then c # cs
      else case strip_prefix pat (c # cs) of
        Some rest \<Rightarrow> getSubstitution pat pre rest repl @ replace_from pat repl (pre @ pat) rest
      | None \<Rightarrow> c # replace_from pat repl (pre @ [c]) cs)"
  by pat_completeness auto

lemma strip_prefix_length: "strip_prefix p s = Some r \<Longrightarrow> length s = length p + length r"
  by (induction p s rule: strip_prefix.induct) (auto split: if_splits)

termination replace_from
proof (relation "measure (\<lambda>(pat, repl, pre, s). length s)")
  show "wf (measure (\<lambda>(pat, repl, pre, s). length s))" by simp
next
  fix pat repl pre :: string and c cs x2
  assume "pat \<noteq> []" "strip_prefix pat (c # cs) = Some x2"
  then show "((pat, repl, pre @ pat, x2), pat, repl, pre, c # cs)
      \<in> measure (\<lambda>(pat, repl, pre, s). length s)"
    using strip_prefix_length[of pat "c # cs" x2] by (cases pat) auto
next
  fix pat repl pre :: string and c cs
  show "((pat, repl, pre @ [c], cs), pat, repl, pre, c # cs)
      \<in> measure (\<lambda>(pat, repl, pre, s). length s)" by simp
qed

definition replace_all :: "string \<Rightarrow> string \<Rightarrow> string \<Rightarrow> string" where
  "replace_all pat repl s = replace_from pat repl [] s"

text \<open>Decimal notation of a number, as string concatenation with a number gives it.\<close>

fun string_of_nat :: "nat \<Rightarrow> string" where
  "string_of_nat n =
     (if n < 10 then [char_of (48 + n)]
      else string_of_nat (n div 10) @ [char_of (48 + n mod 10)])"

text \<open>A string is falsy when it is undefined or empty.\<close>

definition truthy :: "string option \<Rightarrow> bool" where
  "truthy v = (case v of None \<Rightarrow> False | Some s \<Rightarrow> s \<noteq> [])"

text \<open>Exceptions, and the completion of a call that may throw.\<close>

datatype exn = TypeError | SyntaxError | FsError

datatype 'a completion = Normal 'a | Throw exn

subsection \<open>The mapping tables\<close>

text \<open>
  \<^verbatim>\<open>process.arch\<close> and \<^verbatim>\<open>process.platform\<close> are identifiers that Node fixes at build
  time; for them \<^verbatim>\<open>x in TABLE\<close> is the lookup among the keys of the table.
\<close>

definition ARCH_MAPPING :: "(string \<times> string) list" where
  "ARCH_MAPPING = [(''ia32'', ''386''), (''x64'', ''amd64''), (''arm'', ''arm''), (''arm64'', ''arm64'')]"

definition PLATFORM_MAPPING :: "(string \<times> string) list" where
  "PLATFORM_MAPPING =
     [(''darwin'', ''darwin''), (''linux'', ''linux''), (''win32'', ''windows''), (''freebsd'', ''freebsd'')]"

subsection \<open>The manifest\<close>

text \<open>
  The kinds of JSON values that are not strings, and a value that is a string or of one
  of these kinds. \<^verbatim>\<open>null\<close>, \<^verbatim>\<open>false\<close> and \<^verbatim>\<open>0\<close> are falsy, every other value that is
  not a string is truthy. \<open>JsonNumber\<close> is a number other than zero.
\<close>

datatype json_kind =
  JsonNull | JsonFalse | JsonTrue | JsonZero | JsonNumber | JsonArray | JsonObject

datatype field_value = Str string | NotString json_kind

definition truthy_value :: "field_value option \<Rightarrow> bool" where
  "truthy_value v =
     (case v of
        None \<Rightarrow> False
      | Some (Str s) \<Rightarrow> s \<noteq> []
      | Some (NotString k) \<Rightarrow> k \<in> set [JsonTrue, JsonNumber, JsonArray, JsonObject])"

text \<open>
  The \<^verbatim>\<open>goBinary\<close> object of \<^verbatim>\<open>package.json\<close>, each field present or absent. The
  property itself may be absent from the manifest, \<^verbatim>\<open>null\<close>, a primitive value (a
  string, a number or a boolean) or an object.

  \<^verbatim>\<open>assetName\<close> holds any JSON value: \<open>parsePackageJson\<close> calls \<^verbatim>\<open>replace\<close> on it, a
  method that only a string has, so what becomes of a value that is not a string depends
  on its kind alone. The other required fields are strings and \<^verbatim>\<open>auth\<close> is a boolean:
  what the code does with another value in their place depends on that value and on the
  libraries that it reaches.
\<close>

record descriptor =
  gb_version :: "string option"
  gb_name :: "string option"
  gb_path :: "string option"
  gb_owner :: "string option"
  gb_repo :: "string option"
  gb_assetName :: "field_value option"
  gb_auth :: "bool option"

datatype goBinary_value = Undefined | Null | Primitive | Object descriptor

record packageJson =
  goBinary :: goBinary_value

text \<open>
  What \<^verbatim>\<open>fs.existsSync\<close>, \<^verbatim>\<open>fs.readFileSync\<close> and \<^verbatim>\<open>JSON.parse\<close> make of
  \<^verbatim>\<open>./package.json\<close>: no such file, a file that is not JSON, or the parsed object.
\<close>

datatype manifest_file = NoFile | Unparseable | Parsed packageJson

text \<open>
  Reading a property of \<^verbatim>\<open>packageJson.goBinary\<close>: a TypeError on \<^verbatim>\<open>undefined\<close> and
  \<^verbatim>\<open>null\<close>, \<^verbatim>\<open>undefined\<close> on a primitive value, the field on an object. The
  continuation \<open>k\<close> is the rest of the function.
\<close>

definition read_prop ::
  "goBinary_value \<Rightarrow> (descriptor \<Rightarrow> 'v option) \<Rightarrow> ('v option \<Rightarrow> 'a completion) \<Rightarrow> 'a completion" where
  "read_prop gb field k =
     (case gb of
        Undefined \<Rightarrow> Throw TypeError
      | Null \<Rightarrow> Throw TypeError
      | Primitive \<Rightarrow> k None
      | Object d \<Rightarrow> k (field d))"

text \<open>\<^verbatim>\<open>!gb || typeof(gb) !== "object"\<close>\<close>

definition not_an_object :: "goBinary_value \<Rightarrow> bool" where
  "not_an_object gb = (case gb of Object d \<Rightarrow> False | _ \<Rightarrow> True)"

definition quoted :: "string \<Rightarrow> string" where
  "quoted s = [CHR 0x27] @ s @ [CHR 0x27]"

definition validateConfiguration :: "packageJson \<Rightarrow> string option completion" where
  "validateConfiguration pj =
     read_prop (goBinary pj) gb_version (\<lambda>v.
       if \<not> truthy v then Normal (Some (quoted ''version'' @ '' property must be specified''))
       else if not_an_object (goBinary pj)
       then Normal (Some (quoted ''goBinary'' @ '' property must be defined and be an object''))
       else read_prop (goBinary pj) gb_name (\<lambda>v.
       if \<not> truthy v then Normal (Some (quoted ''name'' @ '' property is necessary''))
       else read_prop (goBinary pj) gb_path (\<lambda>v.
       if \<not> truthy v then Normal (Some (quoted ''path'' @ '' property is necessary''))
       else read_prop (goBinary pj) gb_owner (\<lambda>v.
       if \<not> truthy v then Normal (Some (quoted ''owner'' @ '' property is necessary''))
       else read_prop (goBinary pj) gb_repo (\<lambda>v.
       if \<not> truthy v then Normal (Some (quoted ''repo'' @ '' property is necessary''))
       else read_prop (goBinary pj) gb_assetName (\<lambda>v.
       if \<not> truthy_value v then Normal (Some (quoted ''assetName'' @ '' property is required''))
       else Normal None))))))"

subsection \<open>The process and its surroundings\<close>

text \<open>
  What the script writes and requests, in the order it does so. A request names the owner,
  the repository and the value of the authorization header; the asset request also names
  the asset's identifier.
\<close>

datatype request =
  ReleasesRequest string string "string option"
| AssetRequest string string nat "string option"

datatype event =
  ConsoleError string
| ConsoleLog string
| Mkdirp string
| Request request
| Uncaught exn

text \<open>
  The state of the process: the files that exist, the trace of events and the exit code
  once the process has ended. A process that has not called \<^verbatim>\<open>process.exit\<close> and has
  not died of an exception ends with code 0 when nothing is left to do.
\<close>

record state =
  files :: "string list"
  trace :: "event list"
  exit_code :: "nat option"

definition console_error :: "string \<Rightarrow> state \<Rightarrow> state" where
  "console_error msg s = s\<lparr>trace := trace s @ [ConsoleError msg]\<rparr>"

definition console_log :: "string \<Rightarrow> state \<Rightarrow> state" where
  "console_log msg s = s\<lparr>trace := trace s @ [ConsoleLog msg]\<rparr>"

definition process_exit :: "nat \<Rightarrow> state \<Rightarrow> state" where
  "process_exit code s = s\<lparr>exit_code := Some code\<rparr>"

text \<open>An exception that nothing catches ends the process: Node prints it and exits with code 1.\<close>

definition uncaught :: "exn \<Rightarrow> state \<Rightarrow> state" where
  "uncaught e s = s\<lparr>trace := trace s @ [Uncaught e], exit_code := Some 1\<rparr>"

definition final_exit_code :: "state \<Rightarrow> nat" where
  "final_exit_code s = (case exit_code s of None \<Rightarrow> 0 | Some code \<Rightarrow> code)"

text \<open>The result of \<^verbatim>\<open>exec("npm bin", ...)\<close>: whether it failed, and its two outputs.\<close>

record exec_result =
  err :: bool
  stdout :: string
  stderr :: string

text \<open>
  The releases list as the hosting API documents it, an array of releases with a tag name
  and a list of assets, each asset with a name and an identifier; and the reply to the
  request for it. A body that is not JSON makes \<^verbatim>\<open>JSON.parse\<close> throw, a body that is
  not an array has no \<^verbatim>\<open>find\<close> method.
\<close>

record asset =
  asset_name :: string
  asset_id :: nat

record release =
  tag_name :: string
  assets :: "asset list"

datatype response_body = NotJson | NotAnArray | Releases "release list"

record releases_reply =
  res_error :: "string option"
  statusCode :: nat
  body :: response_body

text \<open>
  The reply to the asset request: an error of the connection, or a response with its
  status code and, for status 200, what becomes of the stream piped through gunzip and
  untar: an error of either stage, or the list of the files extracted below the target
  directory.
\<close>

datatype stream_result = GunzipError string | UntarError string | UntarEnd "string list"

datatype asset_reply = AssetError string | AssetResponse nat stream_result

text \<open>
  Everything the script reads from its surroundings. \<open>path_join\<close> is \<^verbatim>\<open>path.join\<close> of the
  host, \<open>endpoint_url\<close> the URL that \<^verbatim>\<open>octokit.endpoint\<close> builds for a request, and
  \<open>protected\<close> the paths that the process may neither delete nor write.
\<close>

record world =
  argv :: "string list"
  arch :: string
  platform :: string
  manifest :: manifest_file
  GITHUB_TOKEN :: "string option"
  npm_config_prefix :: "string option"
  cwd :: string
  npm_bin :: exec_result
  path_join :: "string \<Rightarrow> string \<Rightarrow> string"
  endpoint_url :: "request \<Rightarrow> string"
  protected :: "string list"
  releases_response :: releases_reply
  asset_response :: asset_reply

subsection \<open>getInstallationPath\<close>

text \<open>
  Lines 36 to 53, the directory that the callback of \<^verbatim>\<open>exec\<close> computes: \<open>dir\<close> starts as
  \<^verbatim>\<open>null\<close>, which is \<open>None\<close> here.
\<close>

definition installation_dir :: "world \<Rightarrow> string" where
  "installation_dir w =
     (let dir =
        (if err (npm_bin w) \<or> stderr (npm_bin w) \<noteq> [] \<or> stdout (npm_bin w) = []
         then (if truthy (npm_config_prefix w)
               then (case npm_config_prefix w of
                       Some prefix \<Rightarrow> Some (path_join w prefix ''bin'')
                     | None \<Rightarrow> None)
               else None)
         else Some (trim (stdout (npm_bin w))))
      in if \<not> truthy dir then path_join w (cwd w) ''node_modules/.bin''
         else (case dir of Some d \<Rightarrow> d | None \<Rightarrow> []))"

definition getInstallationPath ::
  "world \<Rightarrow> (string option \<Rightarrow> string \<Rightarrow> state \<Rightarrow> state) \<Rightarrow> state \<Rightarrow> state" where
  "getInstallationPath w callback s = callback None (installation_dir w) s"

subsection \<open>parsePackageJson\<close>

record options =
  binName :: string
  binPath :: string
  version :: string
  auth :: "bool option"
  owner :: string
  repo :: string
  assetName :: string

text \<open>Lines 145 to 148: the four replacements, one after the other.\<close>

definition substitute :: "string \<Rightarrow> string \<Rightarrow> string \<Rightarrow> string \<Rightarrow> string \<Rightarrow> string" where
  "substitute goarch goos ver bin name =
     replace_all ''{{bin_name}}'' bin
       (replace_all ''{{version}}'' ver
         (replace_all ''{{platform}}'' goos
           (replace_all ''{{arch}}'' goarch name)))"

text \<open>
  Lines 130 to 158, after the validation: the fields are read, the version loses one
  leading \<^verbatim>\<open>v\<close>, the binary name gains \<^verbatim>\<open>.exe\<close> on Windows, and the asset name is
  filled in. An asset name that is not a string has no \<^verbatim>\<open>replace\<close> method: the call
  in line 145 throws a TypeError. So does the read of a string method on a field that
  is absent.
\<close>

definition normalise :: "string \<Rightarrow> string \<Rightarrow> string \<Rightarrow> descriptor \<Rightarrow> options completion" where
  "normalise node_platform goarch goos d =
     (case (gb_name d, gb_path d, gb_owner d, gb_repo d, gb_assetName d, gb_version d) of
        (Some name0, Some path0, Some owner0, Some repo0, Some (Str assetName0), Some version0) \<Rightarrow>
          (let version1 = (case version0 of c # r \<Rightarrow> if c = CHR ''v'' then r else version0 | [] \<Rightarrow> version0);
               binName1 = (if node_platform = ''win32'' then name0 @ ''.exe'' else name0)
           in Normal \<lparr>binName = binName1, binPath = path0, version = version1, auth = gb_auth d,
                owner = owner0, repo = repo0,
                assetName = substitute goarch goos version1 binName1 assetName0\<rparr>)
      | _ \<Rightarrow> Throw TypeError)"

definition parsePackageJson :: "world \<Rightarrow> state \<Rightarrow> state \<times> options option completion" where
  "parsePackageJson w s =
     (case map_of ARCH_MAPPING (arch w) of
        None \<Rightarrow> (console_error (''Installation is not supported for this architecture: '' @ arch w) s, Normal None)
      | Some goarch \<Rightarrow>
     (case map_of PLATFORM_MAPPING (platform w) of
        None \<Rightarrow> (console_error (''Installation is not supported for this platform: '' @ platform w) s, Normal None)
      | Some goos \<Rightarrow>
     (case manifest w of
        NoFile \<Rightarrow>
          (console_error (''Unable to find package.json. '' @
             ''Please run this script at root of the package you want to be installed'') s, Normal None)
      | Unparseable \<Rightarrow> (s, Throw SyntaxError)
      | Parsed pj \<Rightarrow>
     (case validateConfiguration pj of
        Throw e \<Rightarrow> (s, Throw e)
      | Normal error \<Rightarrow>
          if truthy error
          then (console_error (''Invalid package.json: '' @ (case error of Some m \<Rightarrow> m | None \<Rightarrow> [])) s, Normal None)
          else (case goBinary pj of
                  Object d \<Rightarrow>
                    (case normalise (platform w) goarch goos d of
                       Normal opts \<Rightarrow> (s, Normal (Some opts))
                     | Throw e \<Rightarrow> (s, Throw e))
                | _ \<Rightarrow> (s, Throw TypeError))))))"

subsection \<open>Files\<close>

definition existsSync :: "string \<Rightarrow> state \<Rightarrow> bool" where
  "existsSync p s = (p \<in> set (files s))"

definition renameSync :: "world \<Rightarrow> string \<Rightarrow> string \<Rightarrow> state \<Rightarrow> state completion" where
  "renameSync w src dst s =
     (if src \<in> set (files s) \<and> src \<notin> set (protected w) \<and> dst \<notin> set (protected w)
      then Normal (s\<lparr>files := dst # removeAll dst (removeAll src (files s))\<rparr>)
      else Throw FsError)"

definition unlinkSync :: "world \<Rightarrow> string \<Rightarrow> state \<Rightarrow> state completion" where
  "unlinkSync w p s =
     (if p \<in> set (files s) \<and> p \<notin> set (protected w)
      then Normal (s\<lparr>files := removeAll p (files s)\<rparr>)
      else Throw FsError)"

definition mkdirp_sync :: "world \<Rightarrow> string \<Rightarrow> state \<Rightarrow> state completion" where
  "mkdirp_sync w p s =
     (if p \<in> set (protected w) then Throw FsError
      else Normal (s\<lparr>trace := trace s @ [Mkdirp p]\<rparr>))"

subsection \<open>verifyAndPlaceBinary\<close>

text \<open>
  The argument of a completion callback: a message, or an error object of a library (of
  which the description is kept). Every error object is truthy; a message is truthy when
  it is not empty.
\<close>

datatype err_value = Msg string | ErrorObject string

definition truthy_err :: "err_value option \<Rightarrow> bool" where
  "truthy_err e = (case e of None \<Rightarrow> False | Some (Msg m) \<Rightarrow> m \<noteq> [] | Some (ErrorObject d) \<Rightarrow> True)"

definition err_text :: "err_value option \<Rightarrow> string" where
  "err_text e = (case e of None \<Rightarrow> ''null'' | Some (Msg m) \<Rightarrow> m | Some (ErrorObject d) \<Rightarrow> d)"

definition verifyAndPlaceBinary ::
  "world \<Rightarrow> string \<Rightarrow> string \<Rightarrow> (err_value option \<Rightarrow> state \<Rightarrow> state) \<Rightarrow> state \<Rightarrow> state" where
  "verifyAndPlaceBinary w bin_name bin_path callback s =
     (if \<not> existsSync (path_join w bin_path bin_name) s
      then callback (Some (Msg (''Downloaded binary does not contain the binary specified in configuration - '' @ bin_name))) s
      else getInstallationPath w (\<lambda>err installationPath s1.
             if truthy err
             then callback (Some (Msg ''Error getting binary installation path from `npm bin`'')) s1
             else (case renameSync w (path_join w bin_path bin_name) (path_join w installationPath bin_name) s1 of
                     Throw e \<Rightarrow> uncaught e s1
                   | Normal s2 \<Rightarrow> callback None s2)) s)"

subsection \<open>install\<close>

definition INVALID_INPUT :: string where
  "INVALID_INPUT = ''Invalid inputs''"

text \<open>\<^verbatim>\<open>!!token ? `token ${token}` : undefined\<close>\<close>

definition authorization :: "string option \<Rightarrow> string option" where
  "authorization token =
     (if truthy token then (case token of Some t \<Rightarrow> Some (''token '' @ t) | None \<Rightarrow> None) else None)"

text \<open>
  Lines 243 to 250: the handlers of the asset request and of the two stream stages. The
  error handler of the request reads \<^verbatim>\<open>opts.url\<close>, a property the options do not have.
\<close>

definition onAssetResponse ::
  "world \<Rightarrow> options \<Rightarrow> (err_value option \<Rightarrow> state \<Rightarrow> state) \<Rightarrow> asset_reply \<Rightarrow> state \<Rightarrow> state" where
  "onAssetResponse w opts callback reply s =
     (case reply of
        AssetError e \<Rightarrow> callback (Some (Msg (''Error downloading from URL: '' @ ''undefined''))) s
      | AssetResponse code stream \<Rightarrow>
          if code \<noteq> 200
          then callback (Some (Msg (''Error downloading binary. HTTP Status Code: '' @ string_of_nat code))) s
          else (case stream of
                  GunzipError e \<Rightarrow> callback (Some (ErrorObject e)) s
                | UntarError e \<Rightarrow> callback (Some (ErrorObject e)) s
                | UntarEnd extracted \<Rightarrow>
                    verifyAndPlaceBinary w (binName opts) (binPath opts) callback
                      (s\<lparr>files := map (path_join w (binPath opts)) extracted @ files s\<rparr>)))"

definition release_tag :: "options \<Rightarrow> string" where
  "release_tag opts = ''v'' @ version opts"

definition onReleaseResponse ::
  "world \<Rightarrow> options \<Rightarrow> string option \<Rightarrow> (err_value option \<Rightarrow> state \<Rightarrow> state) \<Rightarrow> request \<Rightarrow>
   releases_reply \<Rightarrow> state \<Rightarrow> state" where
  "onReleaseResponse w opts token callback releasesOptions reply s =
     (case res_error reply of
        Some e \<Rightarrow>
          callback (Some (Msg (''Error downloading from URL: '' @ endpoint_url w releasesOptions @ '' '' @ e))) s
      | None \<Rightarrow>
          if statusCode reply \<noteq> 200
          then callback (Some (Msg (''Error requesting release info. HTTP Status Code: '' @
                 string_of_nat (statusCode reply)))) s
          else (let tag = release_tag opts in
            case body reply of
              NotJson \<Rightarrow> uncaught SyntaxError s
            | NotAnArray \<Rightarrow> uncaught TypeError s
            | Releases responseBody \<Rightarrow>
                (case find (\<lambda>x. tag_name x = tag) responseBody of
                   None \<Rightarrow> callback (Some (Msg (''Release with tag '' @ tag @ '' not found''))) s
                 | Some release \<Rightarrow>
                     (case find (\<lambda>x. asset_name x = assetName opts) (assets release) of
                        None \<Rightarrow> callback (Some (Msg (''Asset with name '' @ assetName opts @ '' not found''))) s
                      | Some asset \<Rightarrow>
                          (let assetOptions =
                                 AssetRequest (owner opts) (repo opts) (asset_id asset) (authorization token)
                           in onAssetResponse w opts callback (asset_response w)
                                (s\<lparr>trace := trace s @ [Request assetOptions]\<rparr>))))))"

definition install :: "world \<Rightarrow> (err_value option \<Rightarrow> state \<Rightarrow> state) \<Rightarrow> state \<Rightarrow> state" where
  "install w callback s =
     (case parsePackageJson w s of
        (s1, Throw e) \<Rightarrow> uncaught e s1
      | (s1, Normal None) \<Rightarrow> callback (Some (Msg INVALID_INPUT)) s1
      | (s1, Normal (Some opts)) \<Rightarrow>
          (case mkdirp_sync w (binPath opts) s1 of
             Throw e \<Rightarrow> uncaught e s1
           | Normal s2 \<Rightarrow>
               (let token = (if auth opts = Some True then GITHUB_TOKEN w else None) in
                if auth opts = Some True \<and> \<not> truthy token
                then console_error
                       ''Please provide username in options and GITHUB_TOKEN environment variable to authenticate'' s2
                else (let releasesOptions =
                            ReleasesRequest (owner opts) (repo opts) (authorization token)
                      in onReleaseResponse w opts token callback releasesOptions (releases_response w)
                           (s2\<lparr>trace := trace s2 @ [Request releasesOptions]\<rparr>)))))"

subsection \<open>uninstall\<close>

text \<open>
  The body of the \<^verbatim>\<open>try\<close> block: \<^verbatim>\<open>opts.binName\<close> throws when \<^verbatim>\<open>opts\<close> is undefined,
  \<^verbatim>\<open>fs.unlinkSync\<close> when the file cannot be deleted.
\<close>

definition try_unlink :: "world \<Rightarrow> options option \<Rightarrow> string \<Rightarrow> state \<Rightarrow> state completion" where
  "try_unlink w opts installationPath s =
     (case opts of
        None \<Rightarrow> Throw TypeError
      | Some opt \<Rightarrow> unlinkSync w (path_join w installationPath (binName opt)) s)"

definition uninstall :: "world \<Rightarrow> (err_value option \<Rightarrow> state \<Rightarrow> state) \<Rightarrow> state \<Rightarrow> state" where
  "uninstall w callback s =
     (case parsePackageJson w s of
        (s1, Throw e) \<Rightarrow> uncaught e s1
      | (s1, Normal opts) \<Rightarrow>
          getInstallationPath w (\<lambda>err installationPath s2.
            (let delete = (\<lambda>s3. callback None
                             (case try_unlink w opts installationPath s3 of
                                Throw ex \<Rightarrow> s3
                              | Normal s4 \<Rightarrow> s4))
             in if truthy err
                then (let s3 = callback (Some (Msg ''Error finding binary installation directory'')) s2
                      in if exit_code s3 \<noteq> None then s3 else delete s3)
                else delete s2)) s1)"

subsection \<open>The command line\<close>

text \<open>
  \<^verbatim>\<open>actions[cmd]\<close> finds the two commands and, along the prototype chain, the properties
  that every object inherits. Called with the completion callback, the inherited
  \<^verbatim>\<open>__proto__\<close> (not a function) and the two \<^verbatim>\<open>__define...__\<close> methods throw a
  TypeError; the other inherited methods return and never call the callback.
\<close>

definition object_prototype_properties :: "string list" where
  "object_prototype_properties =
     [''constructor'', ''__defineGetter__'', ''__defineSetter__'', ''hasOwnProperty'',
      ''__lookupGetter__'', ''__lookupSetter__'', ''isPrototypeOf'', ''propertyIsEnumerable'',
      ''toString'', ''valueOf'', ''__proto__'', ''toLocaleString'']"

datatype action = Install | Uninstall | Inherited string

definition actions :: "string \<Rightarrow> action option" where
  "actions cmd =
     (if cmd = ''install'' then Some Install
      else if cmd = ''uninstall'' then Some Uninstall
      else if cmd \<in> set object_prototype_properties then Some (Inherited cmd)
      else None)"

definition call_inherited :: "string \<Rightarrow> state \<Rightarrow> state" where
  "call_inherited prop s =
     (if prop \<in> set [''__proto__'', ''__defineGetter__'', ''__defineSetter__'']
      then uncaught TypeError s else s)"

text \<open>Lines 287 to 294: the callback that the command line passes to the action.\<close>

definition main_callback :: "err_value option \<Rightarrow> state \<Rightarrow> state" where
  "main_callback e s =
     (if truthy_err e then process_exit 1 (console_error (err_text e) s)
      else process_exit 0 s)"

definition usage :: string where
  "usage = ''Invalid command to go-npm. `install` and `uninstall` are the only supported commands''"

definition main :: "world \<Rightarrow> state \<Rightarrow> state" where
  "main w s =
     (if length (argv w) > 2
      then (let cmd = argv w ! 2 in
            case actions cmd of
              None \<Rightarrow>
                process_exit 1 (console_log usage s)
            | Some Install \<Rightarrow> install w main_callback s
            | Some Uninstall \<Rightarrow> uninstall w main_callback s
            | Some (Inherited prop) \<Rightarrow> call_inherited prop s)
      else s)"

definition start :: state where
  "start = \<lparr>files = [], trace = [], exit_code = None\<rparr>"

subsection \<open>A sample run\<close>

text \<open>
  The manifest of the end-to-end scenario on a 64-bit Linux host, with a POSIX
  \<^verbatim>\<open>path.join\<close> for paths that need no normalisation.
\<close>

definition example_descriptor :: descriptor where
  "example_descriptor =
     \<lparr>gb_version = Some ''v1.0.0'', gb_name = Some ''mytool'', gb_path = Some ''./bin'',
      gb_owner = Some ''acme'', gb_repo = Some ''mytool'',
      gb_assetName = Some (Str ''mytool-{{platform}}-{{arch}}''), gb_auth = None\<rparr>"

definition example_world :: world where
  "example_world =
     \<lparr>argv = [''node'', ''index.js'', ''install''], arch = ''x64'', platform = ''linux'',
      manifest = Parsed \<lparr>goBinary = Object example_descriptor\<rparr>,
      GITHUB_TOKEN = None, npm_config_prefix = None, cwd = ''/w'',
      npm_bin = \<lparr>err = False, stdout = ''/w/node_modules/.bin'' @ [CHR 0x0A], stderr = []\<rparr>,
      path_join = (\<lambda>a b. if a = [] \<and> b = [] then ''.'' else if a = [] then b
                         else if b = [] then a else a @ ''/'' @ b),
      endpoint_url = (\<lambda>r. ''https://api.github.com/''),
      protected = [],
      releases_response =
        \<lparr>res_error = None, statusCode = 200,
         body = Releases [\<lparr>tag_name = ''v1.0.0'',
                           assets = [\<lparr>asset_name = ''mytool-linux-amd64'', asset_id = 7\<rparr>]\<rparr>]\<rparr>,
      asset_response = AssetResponse 200 (UntarEnd [''mytool''])\<rparr>"

section \<open>Validation and normalisation of the manifest\<close>

text \<open>
  The required fields in the order of the specification, and the first of them that is
  absent or empty. This definition follows the words of the specification; the theorems
  compare \<open>validateConfiguration\<close> with it.
\<close>

definition required_fields :: "(string \<times> (descriptor \<Rightarrow> bool)) list" where
  "required_fields =
     [(''version'', \<lambda>d. truthy (gb_version d)), (''name'', \<lambda>d. truthy (gb_name d)),
      (''path'', \<lambda>d. truthy (gb_path d)), (''owner'', \<lambda>d. truthy (gb_owner d)),
      (''repo'', \<lambda>d. truthy (gb_repo d)), (''assetName'', \<lambda>d. truthy_value (gb_assetName d))]"

definition first_missing :: "descriptor \<Rightarrow> string option" where
  "first_missing d = map_option fst (find (\<lambda>(field, present). \<not> present d) required_fields)"


lemma substitute_mytool:
  "substitute ''amd64'' ''linux'' ''1.0.0'' ''mytool'' ''mytool-{{platform}}-{{arch}}'' = ''mytool-linux-amd64''"
  by (simp add: substitute_def replace_all_def)

lemma validate_complete:
  assumes "goBinary pj = Object d" and "first_missing d = None"
  shows "validateConfiguration pj = Normal None"
  using assms
  by (simp add: validateConfiguration_def read_prop_def first_missing_def required_fields_def
      not_an_object_def split: if_splits)


lemma complete_fields:
  assumes "first_missing d = None"
  shows "\<exists>n p ow rp a v. gb_name d = Some n \<and> gb_path d = Some p \<and> gb_owner d = Some ow \<and>
           gb_repo d = Some rp \<and> gb_assetName d = Some a \<and> gb_version d = Some v"
  using assms
  by (auto simp add: first_missing_def required_fields_def truthy_def truthy_value_def
      split: if_splits option.splits)

lemma parse_complete:
  assumes "map_of ARCH_MAPPING (arch w) = Some goarch"
    and "map_of PLATFORM_MAPPING (platform w) = Some goos"
    and "manifest w = Parsed pj" and "goBinary pj = Object d" and "first_missing d = None"
    and "gb_assetName d = Some (Str a)"
  shows "\<exists>opts. parsePackageJson w s = (s, Normal (Some opts)) \<and>
           normalise (platform w) goarch goos d = Normal opts"
proof -
  from complete_fields[OF assms(5)] assms(6) obtain opts
    where n: "normalise (platform w) goarch goos d = Normal opts"
    by (auto simp add: normalise_def Let_def)
  have "parsePackageJson w s = (s, Normal (Some opts))"
    using assms(1-4) validate_complete[OF assms(4,5)] n
    by (simp add: parsePackageJson_def truthy_def)
  with n show ?thesis by blast
qed


text \<open>
  C1. On a host that reports architecture \<^verbatim>\<open>x64\<close> and platform \<^verbatim>\<open>linux\<close>, a valid manifest
  with name \<^verbatim>\<open>mytool\<close>, path \<^verbatim>\<open>./bin\<close>, version \<^verbatim>\<open>v1.0.0\<close> and asset name
  \<^verbatim>\<open>mytool-{{platform}}-{{arch}}\<close> (any non-empty owner and repository) parses to options
  with asset name \<^verbatim>\<open>mytool-linux-amd64\<close>, version \<^verbatim>\<open>1.0.0\<close> and binary name
  \<^verbatim>\<open>mytool\<close>, and the release tag that install then looks for is \<^verbatim>\<open>v1.0.0\<close>.
\<close>

theorem parsePackageJson_mytool:
  assumes "arch w = ''x64''" and "platform w = ''linux''"
    and "manifest w = Parsed pj" and "goBinary pj = Object d"
    and "gb_name d = Some ''mytool''" and "gb_path d = Some ''./bin''"
    and "gb_version d = Some ''v1.0.0''"
    and "gb_assetName d = Some (Str ''mytool-{{platform}}-{{arch}}'')"
    and "gb_owner d = Some ow" and "ow \<noteq> []" and "gb_repo d = Some rp" and "rp \<noteq> []"
  shows "\<exists>opts. parsePackageJson w s = (s, Normal (Some opts)) \<and>
           assetName opts = ''mytool-linux-amd64'' \<and> version opts = ''1.0.0'' \<and>
           binName opts = ''mytool'' \<and> release_tag opts = ''v1.0.0''"
proof -
  have v: "validateConfiguration pj = Normal None"
    using assms
    by (simp add: validateConfiguration_def read_prop_def truthy_def truthy_value_def not_an_object_def)
  have n: "normalise ''linux'' ''amd64'' ''linux'' d =
      Normal \<lparr>binName = ''mytool'', binPath = ''./bin'', version = ''1.0.0'', auth = gb_auth d,
        owner = ow, repo = rp, assetName = ''mytool-linux-amd64''\<rparr>"
    using assms by (simp add: normalise_def substitute_mytool)
  show ?thesis
    using assms v n
    by (simp add: parsePackageJson_def ARCH_MAPPING_def PLATFORM_MAPPING_def truthy_def release_tag_def)
qed

theorem parsePackageJson_mytool_witness:
  "\<exists>opts. parsePackageJson example_world start = (start, Normal (Some opts)) \<and>
     assetName opts = ''mytool-linux-amd64'' \<and> version opts = ''1.0.0'' \<and>
     binName opts = ''mytool'' \<and> release_tag opts = ''v1.0.0''"
  by (rule parsePackageJson_mytool[of example_world "\<lparr>goBinary = Object example_descriptor\<rparr>"
        example_descriptor "''acme''" "''mytool''"])
    (simp_all add: example_world_def example_descriptor_def)




text \<open>
  C4. The check of the descriptor object does not come first: \<open>validateConfiguration\<close>
  reads \<^verbatim>\<open>goBinary.version\<close> before it. With \<^verbatim>\<open>goBinary\<close> absent or \<^verbatim>\<open>null\<close> the read
  throws a TypeError; with a primitive value the function reports the version. No
  manifest at all makes it return the message about \<^verbatim>\<open>goBinary\<close>.
\<close>

theorem validateConfiguration_descriptor_check_unreachable:
  "validateConfiguration \<lparr>goBinary = Undefined\<rparr> = Throw TypeError \<and>
   validateConfiguration \<lparr>goBinary = Null\<rparr> = Throw TypeError \<and>
   validateConfiguration \<lparr>goBinary = Primitive\<rparr> =
     Normal (Some (quoted ''version'' @ '' property must be specified'')) \<and>
   validateConfiguration pj \<noteq>
     Normal (Some (quoted ''goBinary'' @ '' property must be defined and be an object''))"
proof -
  have "validateConfiguration pj \<noteq>
     Normal (Some (quoted ''goBinary'' @ '' property must be defined and be an object''))"
    by (cases "goBinary pj")
      (simp_all add: validateConfiguration_def read_prop_def not_an_object_def quoted_def truthy_def)
  then show ?thesis
    by (simp add: validateConfiguration_def read_prop_def truthy_def)
qed

section \<open>The installation path\<close>









section \<open>Uninstall\<close>

lemma parse_Some_state:
  "parsePackageJson w s = (s1, Normal (Some opts)) \<Longrightarrow> s1 = s"
  by (auto simp add: parsePackageJson_def split: option.splits manifest_file.splits completion.splits
      if_splits goBinary_value.splits)

lemma parse_None_state:
  "parsePackageJson w s = (s1, Normal None) \<Longrightarrow> \<exists>line. s1 = console_error line s"
  by (auto simp add: parsePackageJson_def split: option.splits manifest_file.splits completion.splits
      if_splits goBinary_value.splits)

text \<open>
  C7. When the manifest is valid, \<open>uninstall\<close> attempts the deletion of the binary in the
  installation directory and then calls its callback once, with \<^verbatim>\<open>null\<close>: an error of
  the deletion (the file is absent, or may not be deleted) is swallowed and leaves the
  state as it was. From the command line the process then exits with code 0 and has
  written nothing.
\<close>

theorem uninstall_swallows_deletion_error:
  assumes "parsePackageJson w s = (s1, Normal (Some opts))"
  shows "uninstall w callback s =
           callback None
             (case unlinkSync w (path_join w (installation_dir w) (binName opts)) s of
                Throw ex \<Rightarrow> s
              | Normal s2 \<Rightarrow> s2) \<and>
         exit_code (uninstall w main_callback s) = Some 0 \<and>
         trace (uninstall w main_callback s) = trace s"
proof -
  have s1: "s1 = s" using assms by (rule parse_Some_state)
  have u: "uninstall w cb s =
           cb None
             (case unlinkSync w (path_join w (installation_dir w) (binName opts)) s of
                Throw ex \<Rightarrow> s
              | Normal s2 \<Rightarrow> s2)" for cb
    using assms s1
    by (simp add: uninstall_def getInstallationPath_def try_unlink_def truthy_def)
  have t: "trace (case unlinkSync w p s of Throw ex \<Rightarrow> s | Normal s2 \<Rightarrow> s2) = trace s" for p
    by (simp add: unlinkSync_def)
  show ?thesis
    using u[of callback] u[of main_callback] t
    by (simp add: main_callback_def truthy_err_def process_exit_def)
qed

theorem uninstall_swallows_deletion_error_witness:
  "uninstall example_world main_callback start = \<lparr>files = [], trace = [], exit_code = Some 0\<rparr>"
proof -
  obtain opts where p: "parsePackageJson example_world start = (start, Normal (Some opts))"
    using parse_complete[of example_world "''amd64''" "''linux''"
        "\<lparr>goBinary = Object example_descriptor\<rparr>" example_descriptor
        "''mytool-{{platform}}-{{arch}}''" start]
    by (auto simp add: example_world_def example_descriptor_def ARCH_MAPPING_def PLATFORM_MAPPING_def
      first_missing_def required_fields_def truthy_def truthy_value_def)
  have "unlinkSync example_world p start = Throw FsError" for p
    by (simp add: unlinkSync_def start_def)
  with uninstall_swallows_deletion_error[OF p, of main_callback]
  show ?thesis
    by (simp add: main_callback_def truthy_err_def process_exit_def start_def)
qed

text \<open>
  When \<open>parsePackageJson\<close> throws (the manifest is not JSON, or \<^verbatim>\<open>goBinary\<close> is absent
  or \<^verbatim>\<open>null\<close>), nothing in \<open>uninstall\<close> catches the exception: the installation path
  is never asked for and no callback is called.
\<close>

lemma uninstall_parse_throws:
  "parsePackageJson w s = (s1, Throw e) \<Longrightarrow> uninstall w callback s = uncaught e s1"
  by (simp add: uninstall_def)

text \<open>
  C10, as the code has it. When \<open>parsePackageJson\<close> returns \<^verbatim>\<open>undefined\<close> (the
  architecture or the platform is not supported, the manifest is missing, or a required
  field of a \<^verbatim>\<open>goBinary\<close> object is absent or empty), \<open>uninstall\<close> goes on all the same:
  inside the callback of the installation path the read of \<^verbatim>\<open>opts.binName\<close> throws a
  TypeError, within the \<^verbatim>\<open>try\<close> block, so nothing is deleted and the callback is called
  once, with \<^verbatim>\<open>null\<close> and never with an error. From the command line the one line that
  \<open>parsePackageJson\<close> wrote is followed by exit code 0, not 1.
\<close>

theorem uninstall_without_options:
  assumes "parsePackageJson w s = (s1, Normal None)"
  shows "try_unlink w None (installation_dir w) s1 = Throw TypeError \<and>
         uninstall w callback s = callback None s1 \<and>
         uninstall w main_callback s = process_exit 0 s1 \<and>
         (\<exists>line. s1 = console_error line s)"
  using assms parse_None_state[OF assms]
  by (simp add: uninstall_def getInstallationPath_def try_unlink_def truthy_def main_callback_def
      truthy_err_def)

theorem uninstall_without_options_witness:
  "uninstall (example_world\<lparr>manifest := NoFile\<rparr>) main_callback start =
     \<lparr>files = [],
      trace = [ConsoleError (''Unable to find package.json. '' @
        ''Please run this script at root of the package you want to be installed'')],
      exit_code = Some 0\<rparr>"
proof -
  have p: "parsePackageJson (example_world\<lparr>manifest := NoFile\<rparr>) start =
      (console_error (''Unable to find package.json. '' @
        ''Please run this script at root of the package you want to be installed'') start, Normal None)"
    by (simp add: parsePackageJson_def example_world_def ARCH_MAPPING_def PLATFORM_MAPPING_def)
  have "uninstall (example_world\<lparr>manifest := NoFile\<rparr>) main_callback start =
      process_exit 0 (console_error (''Unable to find package.json. '' @
        ''Please run this script at root of the package you want to be installed'') start)"
    using uninstall_without_options[OF p] by blast
  then show ?thesis by (simp add: process_exit_def console_error_def start_def)
qed

text \<open>
  The claim as stated counts a manifest that cannot be parsed among the runs without
  options. There \<open>parsePackageJson\<close> does not return: \<^verbatim>\<open>JSON.parse\<close> throws before
  \<open>uninstall\<close> asks for the installation path, \<^verbatim>\<open>opts.binName\<close> is never read, no
  callback is called and the process dies of the exception with code 1. The same
  happens, with a TypeError, when the manifest has no \<^verbatim>\<open>goBinary\<close>.
\<close>

theorem uninstall_unparseable_manifest:
  "parsePackageJson (example_world\<lparr>manifest := Unparseable\<rparr>) start = (start, Throw SyntaxError) \<and>
   uninstall (example_world\<lparr>manifest := Unparseable\<rparr>) main_callback start =
     \<lparr>files = [], trace = [Uncaught SyntaxError], exit_code = Some 1\<rparr> \<and>
   uninstall (example_world\<lparr>manifest := Parsed \<lparr>goBinary = Undefined\<rparr>\<rparr>) main_callback start =
     \<lparr>files = [], trace = [Uncaught TypeError], exit_code = Some 1\<rparr>"
proof -
  have p: "parsePackageJson (example_world\<lparr>manifest := Unparseable\<rparr>) start = (start, Throw SyntaxError)"
    by (simp add: parsePackageJson_def example_world_def ARCH_MAPPING_def PLATFORM_MAPPING_def)
  have q: "parsePackageJson (example_world\<lparr>manifest := Parsed \<lparr>goBinary = Undefined\<rparr>\<rparr>) start =
      (start, Throw TypeError)"
    by (simp add: parsePackageJson_def example_world_def ARCH_MAPPING_def PLATFORM_MAPPING_def
        validateConfiguration_def read_prop_def)
  from uninstall_parse_throws[OF p, of main_callback] uninstall_parse_throws[OF q, of main_callback] p
  show ?thesis by (simp add: uncaught_def start_def)
qed

section \<open>Install\<close>

text \<open>The sample manifest with \<^verbatim>\<open>auth\<close> set, on a host without \<^verbatim>\<open>GITHUB_TOKEN\<close>.\<close>

definition token_world :: world where
  "token_world =
     example_world\<lparr>manifest := Parsed \<lparr>goBinary = Object (example_descriptor\<lparr>gb_auth := Some True\<rparr>)\<rparr>\<rparr>"

text \<open>
  C8. When the manifest sets \<^verbatim>\<open>auth\<close> and \<^verbatim>\<open>GITHUB_TOKEN\<close> is unset or empty,
  \<open>install\<close> creates the target directory, writes one line to the error output and
  returns: it sends no request, and it never calls its callback, so nothing calls
  \<^verbatim>\<open>process.exit(1)\<close>. The exit code stays as it was; a process started from the command
  line ends with code 0.
\<close>

theorem install_missing_token:
  assumes "parsePackageJson w s = (s1, Normal (Some opts))"
    and "auth opts = Some True" and "\<not> truthy (GITHUB_TOKEN w)"
    and "binPath opts \<notin> set (protected w)"
  shows "install w callback s =
           console_error ''Please provide username in options and GITHUB_TOKEN environment variable to authenticate''
             (s\<lparr>trace := trace s @ [Mkdirp (binPath opts)]\<rparr>) \<and>
         exit_code (install w callback s) = exit_code s"
proof -
  have s1: "s1 = s" using assms(1) by (rule parse_Some_state)
  show ?thesis
    using assms s1
    by (simp add: install_def mkdirp_sync_def console_error_def Let_def)
qed

theorem install_missing_token_witness:
  "main token_world start =
     \<lparr>files = [],
      trace = [Mkdirp ''./bin'', ConsoleError
         ''Please provide username in options and GITHUB_TOKEN environment variable to authenticate''],
      exit_code = None\<rparr> \<and>
   final_exit_code (main token_world start) = 0"
proof -
  obtain opts where p: "parsePackageJson token_world start = (start, Normal (Some opts))"
    and n: "normalise (platform token_world) ''amd64'' ''linux'' (example_descriptor\<lparr>gb_auth := Some True\<rparr>) = Normal opts"
    using parse_complete[of token_world "''amd64''" "''linux''"
        "\<lparr>goBinary = Object (example_descriptor\<lparr>gb_auth := Some True\<rparr>)\<rparr>"
        "example_descriptor\<lparr>gb_auth := Some True\<rparr>" "''mytool-{{platform}}-{{arch}}''" start]
    by (auto simp add: token_world_def example_world_def example_descriptor_def ARCH_MAPPING_def
        PLATFORM_MAPPING_def first_missing_def required_fields_def truthy_def truthy_value_def)
  from n have a: "auth opts = Some True" and b: "binPath opts = ''./bin''"
    by (auto simp add: normalise_def example_descriptor_def Let_def)
  have t: "\<not> truthy (GITHUB_TOKEN token_world)" and pr: "binPath opts \<notin> set (protected token_world)"
    by (simp_all add: token_world_def example_world_def truthy_def)
  have m: "main token_world start = install token_world main_callback start"
    by (simp add: main_def token_world_def example_world_def actions_def)
  from install_missing_token[OF p a t pr, of main_callback] m b
  show ?thesis
    by (simp add: console_error_def start_def final_exit_code_def)
qed

lemma find_first:
  "list_all (\<lambda>x. \<not> P x) pre \<Longrightarrow> P r \<Longrightarrow> find P (pre @ r # post) = Some r"
  by (induction pre) auto

lemma find_none: "list_all (\<lambda>x. \<not> P x) xs \<Longrightarrow> find P xs = None"
  by (induction xs) auto

text \<open>
  C2. For a releases list that arrived without error, with status 200 and as an array of
  releases: when no release has the tag \<^verbatim>\<open>"v" + version\<close>, the callback gets the
  release-not-found message on the unchanged state, so no asset request is sent; otherwise
  the first release with that tag decides, whatever follows it in the list: when none of
  its assets has the substituted asset name the callback gets the asset-not-found message
  on the unchanged state, and otherwise the request for its first asset of that name is
  sent.
\<close>

theorem onReleaseResponse_selection:
  assumes "res_error reply = None" and "statusCode reply = 200" and "body reply = Releases rs"
  shows "(list_all (\<lambda>x. tag_name x \<noteq> ''v'' @ version opts) rs \<longrightarrow>
            onReleaseResponse w opts token callback ro reply s =
              callback (Some (Msg (''Release with tag '' @ ''v'' @ version opts @ '' not found''))) s) \<and>
         (\<forall>pre r post.
            rs = pre @ r # post \<and> list_all (\<lambda>x. tag_name x \<noteq> ''v'' @ version opts) pre \<and>
            tag_name r = ''v'' @ version opts \<longrightarrow>
              (list_all (\<lambda>x. asset_name x \<noteq> assetName opts) (assets r) \<longrightarrow>
                 onReleaseResponse w opts token callback ro reply s =
                   callback (Some (Msg (''Asset with name '' @ assetName opts @ '' not found''))) s) \<and>
              (\<forall>apre a apost.
                 assets r = apre @ a # apost \<and> list_all (\<lambda>x. asset_name x \<noteq> assetName opts) apre \<and>
                 asset_name a = assetName opts \<longrightarrow>
                   onReleaseResponse w opts token callback ro reply s =
                     onAssetResponse w opts callback (asset_response w)
                       (s\<lparr>trace := trace s @
                          [Request (AssetRequest (owner opts) (repo opts) (asset_id a) (authorization token))]\<rparr>)))"
proof (intro conjI allI impI)
  assume "list_all (\<lambda>x. tag_name x \<noteq> ''v'' @ version opts) rs"
  then have "find (\<lambda>x. tag_name x = ''v'' @ version opts) rs = None"
    using find_none[of "\<lambda>x. tag_name x = ''v'' @ version opts" rs] by simp
  with assms show "onReleaseResponse w opts token callback ro reply s =
      callback (Some (Msg (''Release with tag '' @ ''v'' @ version opts @ '' not found''))) s"
    by (simp add: onReleaseResponse_def release_tag_def)
next
  fix pre r post
  assume h: "rs = pre @ r # post \<and> list_all (\<lambda>x. tag_name x \<noteq> ''v'' @ version opts) pre \<and>
            tag_name r = ''v'' @ version opts"
  then have f: "find (\<lambda>x. tag_name x = ''v'' @ version opts) rs = Some r"
    using find_first[of "\<lambda>x. tag_name x = ''v'' @ version opts" pre r post] by simp
  assume "list_all (\<lambda>x. asset_name x \<noteq> assetName opts) (assets r)"
  then have "find (\<lambda>x. asset_name x = assetName opts) (assets r) = None"
    using find_none[of "\<lambda>x. asset_name x = assetName opts" "assets r"] by simp
  with assms f show "onReleaseResponse w opts token callback ro reply s =
      callback (Some (Msg (''Asset with name '' @ assetName opts @ '' not found''))) s"
    by (simp add: onReleaseResponse_def release_tag_def)
next
  fix pre r post apre a apost
  assume h: "rs = pre @ r # post \<and> list_all (\<lambda>x. tag_name x \<noteq> ''v'' @ version opts) pre \<and>
            tag_name r = ''v'' @ version opts"
  then have f: "find (\<lambda>x. tag_name x = ''v'' @ version opts) rs = Some r"
    using find_first[of "\<lambda>x. tag_name x = ''v'' @ version opts" pre r post] by simp
  assume "assets r = apre @ a # apost \<and> list_all (\<lambda>x. asset_name x \<noteq> assetName opts) apre \<and>
                 asset_name a = assetName opts"
  then have "find (\<lambda>x. asset_name x = assetName opts) (assets r) = Some a"
    using find_first[of "\<lambda>x. asset_name x = assetName opts" apre a apost] by simp
  with assms f show "onReleaseResponse w opts token callback ro reply s =
                     onAssetResponse w opts callback (asset_response w)
                       (s\<lparr>trace := trace s @
                          [Request (AssetRequest (owner opts) (repo opts) (asset_id a) (authorization token))]\<rparr>)"
    by (simp add: onReleaseResponse_def release_tag_def)
qed

definition example_options :: options where
  "example_options =
     \<lparr>binName = ''mytool'', binPath = ''./bin'', version = ''1.0.0'', auth = None,
      owner = ''acme'', repo = ''mytool'', assetName = ''mytool-linux-amd64''\<rparr>"

definition other_asset :: asset where
  "other_asset = \<lparr>asset_name = ''mytool-darwin-amd64'', asset_id = 3\<rparr>"

definition linux_asset :: asset where
  "linux_asset = \<lparr>asset_name = ''mytool-linux-amd64'', asset_id = 7\<rparr>"

theorem onReleaseResponse_selection_witness:
  "onReleaseResponse example_world example_options None main_callback
     (ReleasesRequest ''acme'' ''mytool'' None)
     \<lparr>res_error = None, statusCode = 200,
      body = Releases [\<lparr>tag_name = ''v0.9.0'', assets = [linux_asset]\<rparr>]\<rparr> start =
     \<lparr>files = [], trace = [ConsoleError ''Release with tag v1.0.0 not found''], exit_code = Some 1\<rparr> \<and>
   onReleaseResponse example_world example_options None main_callback
     (ReleasesRequest ''acme'' ''mytool'' None)
     \<lparr>res_error = None, statusCode = 200,
      body = Releases [\<lparr>tag_name = ''v0.9.0'', assets = [linux_asset]\<rparr>,
                       \<lparr>tag_name = ''v1.0.0'', assets = [other_asset]\<rparr>,
                       \<lparr>tag_name = ''v1.0.0'', assets = [linux_asset]\<rparr>]\<rparr> start =
     \<lparr>files = [], trace = [ConsoleError ''Asset with name mytool-linux-amd64 not found''],
      exit_code = Some 1\<rparr>"
proof -
  let ?old = "\<lparr>tag_name = ''v0.9.0'', assets = [linux_asset]\<rparr>"
  let ?first = "\<lparr>tag_name = ''v1.0.0'', assets = [other_asset]\<rparr>"
  let ?second = "\<lparr>tag_name = ''v1.0.0'', assets = [linux_asset]\<rparr>"
  let ?ro = "ReleasesRequest ''acme'' ''mytool'' None"
  let ?r1 = "\<lparr>res_error = None, statusCode = 200, body = Releases [?old]\<rparr>"
  let ?r2 = "\<lparr>res_error = None, statusCode = 200, body = Releases [?old, ?first, ?second]\<rparr>"
  have a: "onReleaseResponse example_world example_options None main_callback ?ro ?r1 start =
      main_callback (Some (Msg (''Release with tag '' @ ''v'' @ version example_options @ '' not found''))) start"
    using onReleaseResponse_selection[of ?r1 "[?old]" example_options example_world None main_callback ?ro start]
    by (simp add: example_options_def)
  have b: "onReleaseResponse example_world example_options None main_callback ?ro ?r2 start =
      main_callback (Some (Msg (''Asset with name '' @ assetName example_options @ '' not found''))) start"
    using onReleaseResponse_selection[of ?r2 "[?old, ?first, ?second]" example_options example_world
        None main_callback ?ro start, THEN conjunct2, rule_format, of "[?old]" ?first "[?second]"]
    by (simp add: example_options_def other_asset_def)
  from a b show ?thesis
    by (simp add: main_callback_def truthy_err_def err_text_def console_error_def process_exit_def
        start_def example_options_def)
qed

section \<open>The command line\<close>

text \<open>
  C9, as the code has it. For every command-line argument that is neither \<^verbatim>\<open>install\<close>
  nor \<^verbatim>\<open>uninstall\<close> nor the name of a property that every object inherits, the program
  writes the usage line to the standard output and exits with code 1.
\<close>

theorem main_invalid_command:
  assumes "length (argv w) > 2"
    and "argv w ! 2 \<notin> set ([''install'', ''uninstall''] @ object_prototype_properties)"
  shows "main w s = process_exit 1 (console_log usage s)"
  using assms by (simp add: main_def actions_def usage_def)

theorem main_invalid_command_witness:
  "main (example_world\<lparr>argv := [''node'', ''index.js'', ''update'']\<rparr>) start =
     \<lparr>files = [], trace = [ConsoleLog usage], exit_code = Some 1\<rparr>"
proof -
  have "main (example_world\<lparr>argv := [''node'', ''index.js'', ''update'']\<rparr>) start =
      process_exit 1 (console_log usage start)"
    by (rule main_invalid_command) (simp_all add: object_prototype_properties_def)
  then show ?thesis by (simp add: process_exit_def console_log_def start_def)
qed

text \<open>
  The claim as stated fails for the argument \<^verbatim>\<open>update\<close>: the usage line goes to the
  standard output (\<^verbatim>\<open>console.log\<close>), nothing goes to the error output. For the argument
  \<^verbatim>\<open>toString\<close> nothing is written at all and the process ends with code 0.
\<close>

theorem main_usage_not_on_stderr:
  "trace (main (example_world\<lparr>argv := [''node'', ''index.js'', ''update'']\<rparr>) start) = [ConsoleLog usage] \<and>
   ConsoleError usage \<notin> set (trace (main (example_world\<lparr>argv := [''node'', ''index.js'', ''update'']\<rparr>) start)) \<and>
   main (example_world\<lparr>argv := [''node'', ''index.js'', ''toString'']\<rparr>) start = start \<and>
   final_exit_code (main (example_world\<lparr>argv := [''node'', ''index.js'', ''toString'']\<rparr>) start) = 0"
  by (simp add: main_def actions_def object_prototype_properties_def usage_def process_exit_def
      console_log_def start_def call_inherited_def final_exit_code_def)

section \<open>Template substitution\<close>

text \<open>The four placeholders and their tokens, the patterns of lines 145 to 148.\<close>

datatype placeholder = Arch | Platform | Version | BinName

fun token :: "placeholder \<Rightarrow> string" where
  "token Arch = ''{{arch}}''"
| "token Platform = ''{{platform}}''"
| "token Version = ''{{version}}''"
| "token BinName = ''{{bin_name}}''"

text \<open>
  A template written as a sequence of placeholders and of text in between; \<open>render\<close> is
  the asset name it stands for, \<open>fill\<close> one replacement, \<open>resolved\<close> the value that
  belongs in the place of a segment.
\<close>

datatype segment = Text string | Hole placeholder

fun segment_text :: "segment \<Rightarrow> string" where
  "segment_text (Text s) = s"
| "segment_text (Hole p) = token p"

definition render :: "segment list \<Rightarrow> string" where
  "render segs = concat (map segment_text segs)"

fun fill :: "placeholder \<Rightarrow> string \<Rightarrow> segment \<Rightarrow> segment" where
  "fill p v (Text s) = Text s"
| "fill p v (Hole q) = (if p = q then Text v else Hole q)"

fun resolved :: "string \<Rightarrow> string \<Rightarrow> string \<Rightarrow> string \<Rightarrow> segment \<Rightarrow> string" where
  "resolved goarch goos ver bin (Text s) = s"
| "resolved goarch goos ver bin (Hole Arch) = goarch"
| "resolved goarch goos ver bin (Hole Platform) = goos"
| "resolved goarch goos ver bin (Hole Version) = ver"
| "resolved goarch goos ver bin (Hole BinName) = bin"

text \<open>
  Text between placeholders is free of the opening brace; a value is plain when it has
  neither an opening brace nor a dollar sign, the character that starts a replacement
  pattern.
\<close>

definition brace_free :: "string \<Rightarrow> bool" where
  "brace_free s = (CHR ''{'' \<notin> set s)"

definition plain_value :: "string \<Rightarrow> bool" where
  "plain_value s = (CHR ''{'' \<notin> set s \<and> CHR 0x24 \<notin> set s)"

fun plain_segment :: "segment \<Rightarrow> bool" where
  "plain_segment (Text s) = brace_free s"
| "plain_segment (Hole p) = True"

text \<open>\<open>occurs pat s\<close>: the pattern matches somewhere in \<open>s\<close>.\<close>

fun occurs :: "string \<Rightarrow> string \<Rightarrow> bool" where
  "occurs pat [] = (pat = [])"
| "occurs pat (c # cs) = (strip_prefix pat (c # cs) \<noteq> None \<or> occurs pat cs)"

lemma token_brace: "\<exists>rest. token p = CHR ''{'' # rest"
  by (cases p) simp_all

lemma skip_brace_free:
  "brace_free s \<Longrightarrow> replace_from (CHR ''{'' # pat) r pre (s @ t) = s @ replace_from (CHR ''{'' # pat) r (pre @ s) t"
  by (induction s arbitrary: pre) (auto simp add: brace_free_def)

lemma getSubstitution_plain:
  "CHR 0x24 \<notin> set r \<Longrightarrow> getSubstitution m pre post r = r"
  by (induction m pre post r rule: getSubstitution.induct) auto

lemma strip_prefix_self: "strip_prefix p (p @ t) = Some t"
  by (induction p) auto

lemma replace_at_token:
  "CHR 0x24 \<notin> set r \<Longrightarrow>
   replace_from (token p) r pre (token p @ t) = r @ replace_from (token p) r (pre @ token p) t"
proof -
  assume d: "CHR 0x24 \<notin> set r"
  obtain rest where t: "token p = CHR ''{'' # rest" using token_brace by blast
  have "strip_prefix (token p) (CHR ''{'' # rest @ t) = Some t"
    using strip_prefix_self[of "token p" t] t by simp
  then show ?thesis using t d by (simp add: getSubstitution_plain)
qed

lemma replace_at_other_token:
  "p \<noteq> q \<Longrightarrow>
   replace_from (token p) r pre (token q @ t) = token q @ replace_from (token p) r (pre @ token q) t"
  by (cases p; cases q) simp_all

lemma replace_render:
  assumes "CHR 0x24 \<notin> set r" and "list_all plain_segment segs"
  shows "replace_from (token p) r pre (render segs) = render (map (fill p r) segs)"
  using assms(2)
proof (induction segs arbitrary: pre)
  case Nil
  then show ?case by (simp add: render_def)
next
  case (Cons seg segs)
  then have ih: "\<And>pre. replace_from (token p) r pre (render segs) = render (map (fill p r) segs)"
    by simp
  obtain rest where t: "token p = CHR ''{'' # rest" using token_brace by blast
  show ?case
  proof (cases seg)
    case (Text s)
    with Cons.prems have "brace_free s" by simp
    from skip_brace_free[OF this, of rest r pre "render segs"] t ih Text
    show ?thesis by (simp add: render_def)
  next
    case (Hole q)
    show ?thesis
    proof (cases "p = q")
      case True
      with replace_at_token[OF assms(1), of p pre "render segs"] ih Hole
      show ?thesis by (simp add: render_def)
    next
      case False
      with replace_at_other_token[OF False, of r pre "render segs"] ih Hole
      show ?thesis by (simp add: render_def)
    qed
  qed
qed

lemma fill_plain_segment:
  "brace_free v \<Longrightarrow> plain_segment seg \<Longrightarrow> plain_segment (fill p v seg)"
  by (cases seg) auto

lemma fill_plain:
  "brace_free v \<Longrightarrow> list_all plain_segment segs \<Longrightarrow> list_all plain_segment (map (fill p v) segs)"
  by (induction segs) (auto simp add: fill_plain_segment)

lemma fill_all:
  "segment_text (fill BinName bin (fill Version ver (fill Platform goos (fill Arch goarch seg)))) =
     resolved goarch goos ver bin seg"
proof (cases seg)
  case (Text s)
  then show ?thesis by simp
next
  case (Hole q)
  then show ?thesis by (cases q) simp_all
qed

lemma resolved_brace_free:
  assumes "brace_free goarch" and "brace_free goos" and "brace_free ver" and "brace_free bin"
    and "plain_segment seg"
  shows "brace_free (resolved goarch goos ver bin seg)"
proof (cases seg)
  case (Text s)
  with assms show ?thesis by simp
next
  case (Hole q)
  with assms show ?thesis by (cases q) simp_all
qed

lemma substitute_render:
  assumes "list_all plain_segment segs"
    and "plain_value goarch" and "plain_value goos" and "plain_value ver" and "plain_value bin"
  shows "substitute goarch goos ver bin (render segs) = concat (map (resolved goarch goos ver bin) segs)"
proof -
  have b: "brace_free goarch" "brace_free goos" "brace_free ver" "brace_free bin"
    and d: "CHR 0x24 \<notin> set goarch" "CHR 0x24 \<notin> set goos" "CHR 0x24 \<notin> set ver" "CHR 0x24 \<notin> set bin"
    using assms(2-5) by (simp_all add: plain_value_def brace_free_def)
  let ?s1 = "map (fill Arch goarch) segs"
  let ?s2 = "map (fill Platform goos) ?s1"
  let ?s3 = "map (fill Version ver) ?s2"
  let ?s4 = "map (fill BinName bin) ?s3"
  have p1: "list_all plain_segment ?s1" using fill_plain[OF b(1) assms(1)] .
  have p2: "list_all plain_segment ?s2" using fill_plain[OF b(2) p1] .
  have p3: "list_all plain_segment ?s3" using fill_plain[OF b(3) p2] .
  have r1: "replace_all ''{{arch}}'' goarch (render segs) = render ?s1"
    using replace_render[OF d(1) assms(1), of Arch "[]"] by (simp add: replace_all_def)
  have r2: "replace_all ''{{platform}}'' goos (render ?s1) = render ?s2"
    using replace_render[OF d(2) p1, of Platform "[]"] by (simp add: replace_all_def)
  have r3: "replace_all ''{{version}}'' ver (render ?s2) = render ?s3"
    using replace_render[OF d(3) p2, of Version "[]"] by (simp add: replace_all_def)
  have r4: "replace_all ''{{bin_name}}'' bin (render ?s3) = render ?s4"
    using replace_render[OF d(4) p3, of BinName "[]"] by (simp add: replace_all_def)
  have "substitute goarch goos ver bin (render segs) = render ?s4"
    unfolding substitute_def r1 r2 r3 r4 ..
  also have "render ?s4 = concat (map (resolved goarch goos ver bin) segs)"
    by (simp add: render_def fill_all comp_def)
  finally show ?thesis .
qed

lemma concat_resolved_brace_free:
  assumes "list_all plain_segment segs"
    and "brace_free goarch" and "brace_free goos" and "brace_free ver" and "brace_free bin"
  shows "brace_free (concat (map (resolved goarch goos ver bin) segs))"
  using assms(1)
proof (induction segs)
  case Nil
  then show ?case by (simp add: brace_free_def)
next
  case (Cons seg segs)
  then have "brace_free (resolved goarch goos ver bin seg)"
    using resolved_brace_free[OF assms(2-5), of seg] by simp
  with Cons show ?case by (simp add: brace_free_def)
qed

lemma brace_free_no_occurrence: "brace_free s \<Longrightarrow> \<not> occurs (token p) s"
proof (induction s)
  case Nil
  then show ?case by (cases p) simp_all
next
  case (Cons c s)
  obtain rest where t: "token p = CHR ''{'' # rest" using token_brace by blast
  from Cons show ?case by (simp add: t brace_free_def)
qed

lemma replace_all_brace_free: "brace_free s \<Longrightarrow> replace_all (token p) r s = s"
proof -
  assume b: "brace_free s"
  obtain rest where t: "token p = CHR ''{'' # rest" using token_brace by blast
  from skip_brace_free[OF b, of rest r "[]" "[]"] t show ?thesis
    by (simp add: replace_all_def)
qed

lemma substitute_brace_free: "brace_free s \<Longrightarrow> substitute goarch goos ver bin s = s"
  using replace_all_brace_free[of s Arch] replace_all_brace_free[of s Platform]
    replace_all_brace_free[of s Version] replace_all_brace_free[of s BinName]
  by (simp add: substitute_def)

text \<open>
  C5, as the code has it. For an asset-name template made of the four placeholder tokens
  and of text without an opening brace, and for resolved values (architecture, platform,
  version, binary name) without an opening brace and without a dollar sign, the four
  replacements put the value in the place of every placeholder, none of the four tokens
  occurs in the result, and substituting a second time leaves the result unchanged.
\<close>

theorem substitute_well_formed_template:
  assumes "list_all plain_segment segs"
    and "plain_value goarch" and "plain_value goos" and "plain_value ver" and "plain_value bin"
  shows "substitute goarch goos ver bin (render segs) = concat (map (resolved goarch goos ver bin) segs) \<and>
         \<not> occurs (token p) (substitute goarch goos ver bin (render segs)) \<and>
         substitute goarch goos ver bin (substitute goarch goos ver bin (render segs)) =
           substitute goarch goos ver bin (render segs)"
proof -
  have b: "brace_free goarch" "brace_free goos" "brace_free ver" "brace_free bin"
    using assms(2-5) by (simp_all add: plain_value_def brace_free_def)
  have e: "substitute goarch goos ver bin (render segs) = concat (map (resolved goarch goos ver bin) segs)"
    by (rule substitute_render[OF assms])
  have f: "brace_free (substitute goarch goos ver bin (render segs))"
    unfolding e by (rule concat_resolved_brace_free[OF assms(1) b])
  from e brace_free_no_occurrence[OF f, of p] substitute_brace_free[OF f, of goarch goos ver bin]
  show ?thesis by simp
qed

theorem substitute_well_formed_template_witness:
  "substitute ''amd64'' ''linux'' ''1.0.0'' ''mytool'' ''mytool-{{platform}}-{{arch}}'' = ''mytool-linux-amd64'' \<and>
   \<not> occurs ''{{arch}}'' (substitute ''amd64'' ''linux'' ''1.0.0'' ''mytool'' ''mytool-{{platform}}-{{arch}}'') \<and>
   substitute ''amd64'' ''linux'' ''1.0.0'' ''mytool''
     (substitute ''amd64'' ''linux'' ''1.0.0'' ''mytool'' ''mytool-{{platform}}-{{arch}}'') =
     substitute ''amd64'' ''linux'' ''1.0.0'' ''mytool'' ''mytool-{{platform}}-{{arch}}''"
proof -
  let ?segs = "[Text ''mytool-'', Hole Platform, Text ''-'', Hole Arch]"
  have r: "render ?segs = ''mytool-{{platform}}-{{arch}}''" by (simp add: render_def)
  have c: "concat (map (resolved ''amd64'' ''linux'' ''1.0.0'' ''mytool'') ?segs) = ''mytool-linux-amd64''"
    by simp
  have a: "token Arch = ''{{arch}}''" by simp
  have "substitute ''amd64'' ''linux'' ''1.0.0'' ''mytool'' (render ?segs) =
          concat (map (resolved ''amd64'' ''linux'' ''1.0.0'' ''mytool'') ?segs) \<and>
        \<not> occurs (token Arch) (substitute ''amd64'' ''linux'' ''1.0.0'' ''mytool'' (render ?segs)) \<and>
        substitute ''amd64'' ''linux'' ''1.0.0'' ''mytool''
          (substitute ''amd64'' ''linux'' ''1.0.0'' ''mytool'' (render ?segs)) =
          substitute ''amd64'' ''linux'' ''1.0.0'' ''mytool'' (render ?segs)"
    by (rule substitute_well_formed_template) (simp_all add: brace_free_def plain_value_def)
  then show ?thesis unfolding r c a .
qed

text \<open>
  The claim as stated, for every template, fails: the replacements run one after the
  other, each once. With binary name \<^verbatim>\<open>arch\<close> the template \<^verbatim>\<open>{{{{bin_name}}}}\<close> becomes
  \<^verbatim>\<open>{{arch}}\<close>, a token that the first pass leaves and a second pass replaces. With
  version \<^verbatim>\<open>$&\<close> the replacement text stands for the match itself, and the token
  \<^verbatim>\<open>{{version}}\<close> remains.
\<close>

theorem substitute_not_idempotent:
  "substitute ''amd64'' ''linux'' ''1.0.0'' ''arch'' ''{{{{bin_name}}}}'' = ''{{arch}}'' \<and>
   occurs ''{{arch}}'' (substitute ''amd64'' ''linux'' ''1.0.0'' ''arch'' ''{{{{bin_name}}}}'') \<and>
   substitute ''amd64'' ''linux'' ''1.0.0'' ''arch''
     (substitute ''amd64'' ''linux'' ''1.0.0'' ''arch'' ''{{{{bin_name}}}}'') = ''amd64'' \<and>
   substitute ''amd64'' ''linux'' ''$&'' ''mytool'' ''mytool-{{version}}'' = ''mytool-{{version}}''"
  by (simp add: substitute_def replace_all_def)

end
